theory Spec2Isabelle
  imports Complex_Main
begin

section \<open>Python values, errors and callables\<close>

text \<open>
  The module \<^verbatim>\<open>lib.py\<close> is a Variational Monte Carlo library: a Metropolis random
  walker, an (unfinished) tuner of the trial-move width, a stub of the Monte Carlo
  integration and a wrapper class for the optimisation of the parameters.

  Python exceptions are values of \<open>py_error\<close>; a computation that may raise returns
  \<open>py_error + 'a\<close>, with \<open>Inl\<close> for the exception. No function of the module has a
  \<^verbatim>\<open>try\<close> block, so an exception of a callee is always the result of the caller.

  Python floats are modelled as real numbers (rounding, infinities and NaN are outside
  the model). Density values are Python numbers as the docstrings say
  (\<^verbatim>\<open>prob : float\<close>), so \<^verbatim>\<open>a/b\<close> raises \<^verbatim>\<open>ZeroDivisionError\<close> when
  \<open>b = 0\<close>.
\<close>

datatype py_error =
    TypeError | ValueError | IndexError | ZeroDivisionError
  | NameError | AttributeError | KeyError

datatype pyval = PyNone | PyNum real | PyArr "real list" | PyStr string

text \<open>
  A callable receives the list of its positional arguments, so that a call with a
  missing argument is a call of the model too: \<^verbatim>\<open>f(r, alpha)\<close> is \<open>f [r, alpha]\<close>
  and \<^verbatim>\<open>f(r)\<close> is \<open>f [r]\<close>. Whether the second call is a \<^verbatim>\<open>TypeError\<close> depends
  on the callable (a parameter with a default value accepts it).
\<close>

type_synonym callable = "pyval list \<Rightarrow> py_error + real"

text \<open>
  The two example functions of the module (lines 62-103): two required positional
  parameters, the result is the integer \<open>0\<close>.
\<close>

definition prob_density :: callable where
  "prob_density args = (case args of [r, alpha] \<Rightarrow> Inr 0 | _ \<Rightarrow> Inl TypeError)"

definition E_local_f :: callable where
  "E_local_f args = (case args of [r, alpha] \<Rightarrow> Inr 0 | _ \<Rightarrow> Inl TypeError)"

text \<open>Division of two Python numbers, \<^verbatim>\<open>a/b\<close>.\<close>

definition truediv :: "real \<Rightarrow> real \<Rightarrow> py_error + real" where
  "truediv a b = (if b = 0 then Inl ZeroDivisionError else Inr (a / b))"

text \<open>
  \<^verbatim>\<open>a & b\<close> on two floats: Python has no bitwise and for floats (nor for an
  integer and a float), the expression raises \<^verbatim>\<open>TypeError\<close>.
\<close>

definition bitand_float :: "real \<Rightarrow> real \<Rightarrow> py_error + real" where
  "bitand_float a b = Inl TypeError"

section \<open>NumPy arrays and random draws\<close>

text \<open>
  A one-dimensional array is a list of reals, a two-dimensional one the list of its
  rows. \<^verbatim>\<open>np.zeros\<close> refuses a negative dimension.
\<close>

definition np_zeros :: "int \<Rightarrow> py_error + real list" where
  "np_zeros n = (if n < 0 then Inl ValueError else Inr (replicate (nat n) 0))"

definition np_zeros2 :: "int \<Rightarrow> int \<Rightarrow> py_error + real list list" where
  "np_zeros2 n d =
     (if n < 0 \<or> d < 0 then Inl ValueError
      else Inr (replicate (nat n) (replicate (nat d) 0)))"

text \<open>
  \<^verbatim>\<open>steps[i] = p\<close> for \<open>0 \<le> i\<close>: the index is checked first (\<^verbatim>\<open>IndexError\<close>),
  then the values of \<open>p\<close> are copied into the row; an array of one element is
  broadcast over the row, any other length mismatch is a \<^verbatim>\<open>ValueError\<close>.
\<close>

definition setitem_row :: "real list list \<Rightarrow> nat \<Rightarrow> real list \<Rightarrow> py_error + real list list" where
  "setitem_row steps i p =
     (if length steps \<le> i then Inl IndexError
      else if length p = length (steps ! i) then Inr (steps[i := p])
      else if length p = 1 then Inr (steps[i := replicate (length (steps ! i)) (hd p)])
      else Inl ValueError)"

text \<open>
  The random generator is an input of the model: \<open>z j\<close> is the standard normal number
  drawn for coordinate \<open>j\<close>. \<^verbatim>\<open>np.random.normal(loc, scale)\<close> returns, for an array
  \<open>loc\<close> and a number \<open>scale\<close>, the array \<open>loc[j] + scale * z[j]\<close>, and refuses a
  negative \<open>scale\<close>; with \<^verbatim>\<open>size = n\<close> and a number \<open>loc\<close> it returns \<open>n\<close> such
  numbers.
\<close>

definition random_normal :: "real list \<Rightarrow> real \<Rightarrow> (nat \<Rightarrow> real) \<Rightarrow> py_error + real list" where
  "random_normal loc scale z =
     (if scale < 0 then Inl ValueError
      else Inr (map (\<lambda>j. loc ! j + scale * z j) [0..<length loc]))"

definition random_normal_size :: "real \<Rightarrow> real \<Rightarrow> int \<Rightarrow> (nat \<Rightarrow> real) \<Rightarrow> py_error + real list" where
  "random_normal_size loc scale n z =
     (if scale < 0 \<or> n < 0 then Inl ValueError
      else Inr (map (\<lambda>j. loc + scale * z j) [0..<nat n]))"

text \<open>A \<^verbatim>\<open>for\<close> loop over a list of indices; an exception in the body ends it.\<close>

fun for_loop :: "(nat \<Rightarrow> 's \<Rightarrow> py_error + 's) \<Rightarrow> nat list \<Rightarrow> 's \<Rightarrow> py_error + 's" where
  "for_loop body [] s = Inr s"
| "for_loop body (i # rest) s =
     (case body i s of Inl e \<Rightarrow> Inl e | Inr s' \<Rightarrow> for_loop body rest s')"

section \<open>The Metropolis walker\<close>

text \<open>
  Line 141, \<^verbatim>\<open>rate = prob_density(next_point,alpha)/prob_density(curr_point)\<close>: the
  left operand is evaluated first, with two arguments; the right operand is a call with
  one argument.
\<close>

definition rate :: "callable \<Rightarrow> pyval \<Rightarrow> real list \<Rightarrow> real list \<Rightarrow> py_error + real" where
  "rate pdf alpha next_point curr_point =
     (case pdf [PyArr next_point, alpha] of Inl e \<Rightarrow> Inl e
      | Inr a \<Rightarrow>
          (case pdf [PyArr curr_point] of Inl e \<Rightarrow> Inl e
           | Inr b \<Rightarrow> truediv a b))"

text \<open>
  The body of the loop of \<^verbatim>\<open>random_walker\<close> (lines 140-146) on the state
  \<open>(steps, curr_point)\<close>. \<open>g i\<close> are the normal numbers of iteration \<open>i\<close> and \<open>u i\<close>
  is the number \<^verbatim>\<open>np.random.rand(1)\<close> returns in it.
\<close>

definition walker_body ::
  "callable \<Rightarrow> pyval \<Rightarrow> real \<Rightarrow> (nat \<Rightarrow> nat \<Rightarrow> real) \<Rightarrow> (nat \<Rightarrow> real) \<Rightarrow> nat
     \<Rightarrow> real list list \<times> real list \<Rightarrow> py_error + real list list \<times> real list" where
  "walker_body pdf alpha tm_sigma g u i st =
     (case st of (steps, curr_point) \<Rightarrow>
        (case random_normal curr_point tm_sigma (g i) of Inl e \<Rightarrow> Inl e
         | Inr next_point \<Rightarrow>
             (case rate pdf alpha next_point curr_point of Inl e \<Rightarrow> Inl e
              | Inr r \<Rightarrow>
                  if u i \<le> r
                  then (case setitem_row steps i next_point of Inl e \<Rightarrow> Inl e
                        | Inr steps' \<Rightarrow> Inr (steps', next_point))
                  else (case setitem_row steps i curr_point of Inl e \<Rightarrow> Inl e
                        | Inr steps' \<Rightarrow> Inr (steps', curr_point)))))"

text \<open>
  The state of the walker before iteration \<open>k\<close>: the array is allocated, its first row
  is written (lines 136-138) and iterations \<open>0, ..., k - 1\<close> have run.
\<close>

definition walker_state ::
  "callable \<Rightarrow> pyval \<Rightarrow> int \<Rightarrow> int \<Rightarrow> real list \<Rightarrow> real \<Rightarrow> (nat \<Rightarrow> nat \<Rightarrow> real) \<Rightarrow> (nat \<Rightarrow> real)
     \<Rightarrow> nat \<Rightarrow> py_error + real list list \<times> real list" where
  "walker_state pdf alpha N_steps dim' init_point tm_sigma g u k =
     (case np_zeros2 N_steps dim' of Inl e \<Rightarrow> Inl e
      | Inr steps \<Rightarrow>
          (case setitem_row steps 0 init_point of Inl e \<Rightarrow> Inl e
           | Inr steps' \<Rightarrow>
               for_loop (walker_body pdf alpha tm_sigma g u) [0..<k] (steps', init_point)))"

definition random_walker ::
  "callable \<Rightarrow> pyval \<Rightarrow> int \<Rightarrow> int \<Rightarrow> real list \<Rightarrow> real \<Rightarrow> (nat \<Rightarrow> nat \<Rightarrow> real) \<Rightarrow> (nat \<Rightarrow> real)
     \<Rightarrow> py_error + real list list" where
  "random_walker pdf alpha N_steps dim' init_point tm_sigma g u =
     (case walker_state pdf alpha N_steps dim' init_point tm_sigma g u (nat N_steps) of
        Inl e \<Rightarrow> Inl e
      | Inr (steps, curr_point) \<Rightarrow> Inr steps)"

text \<open>\<^verbatim>\<open>rand_init_point\<close> (line 165): \<^verbatim>\<open>np.random.normal(scale=system_size, size=dim)\<close>.\<close>

definition rand_init_point :: "real \<Rightarrow> int \<Rightarrow> (nat \<Rightarrow> real) \<Rightarrow> py_error + real list" where
  "rand_init_point system_size dim' z = random_normal_size 0 system_size dim' z"

section \<open>The tuner of the trial move\<close>

text \<open>
  The body of the inner loop of \<^verbatim>\<open>find_optimal_tm_sigma\<close> (lines 177-181) on the
  state \<open>(curr_point, total_rate)\<close>; \<open>k0 + i\<close> numbers the draws over the batches.
\<close>

definition tuner_body ::
  "callable \<Rightarrow> pyval \<Rightarrow> real \<Rightarrow> (nat \<Rightarrow> nat \<Rightarrow> real) \<Rightarrow> (nat \<Rightarrow> real) \<Rightarrow> nat \<Rightarrow> nat
     \<Rightarrow> real list \<times> real \<Rightarrow> py_error + real list \<times> real" where
  "tuner_body pdf alpha curr_tm_sigma g u k0 i st =
     (case st of (curr_point, total_rate) \<Rightarrow>
        (case random_normal curr_point curr_tm_sigma (g (k0 + i)) of Inl e \<Rightarrow> Inl e
         | Inr next_point \<Rightarrow>
             (case rate pdf alpha next_point curr_point of Inl e \<Rightarrow> Inl e
              | Inr r \<Rightarrow>
                  if u (k0 + i) \<le> r then Inr (next_point, total_rate + r)
                  else Inr (curr_point, total_rate + r))))"

text \<open>
  The \<^verbatim>\<open>while\<close> loop (lines 175-190) on the state
  \<open>(curr_point, curr_tm_sigma, iter, total_rate, rate_av)\<close>. In Python \<^verbatim>\<open>&\<close> binds
  tighter than a comparison, so line 184 is the chain
  \<^verbatim>\<open>abs(rate_av - 0.5) > (tol & (rate_av - 0.5)) > 0\<close> and line 186 the chain
  \<^verbatim>\<open>abs(rate_av - 0.5) > (tol & (rate_av - 0.5)) < 0\<close>. The \<^verbatim>\<open>else\<close> branch is the
  expression \<^verbatim>\<open>exit\<close>, which is not a call and does nothing. \<open>total_rate\<close> is not
  reset between the batches.
\<close>

function tuner_while ::
  "callable \<Rightarrow> pyval \<Rightarrow> int \<Rightarrow> real \<Rightarrow> (nat \<Rightarrow> nat \<Rightarrow> real) \<Rightarrow> (nat \<Rightarrow> real)
     \<Rightarrow> real list \<times> real \<times> int \<times> real \<times> real
     \<Rightarrow> py_error + real list \<times> real \<times> int \<times> real \<times> real" where
  "tuner_while pdf alpha Niter tol g u (curr_point, curr_tm_sigma, iter, total_rate, rate_av) =
     (if iter \<le> Niter then
        (case for_loop (tuner_body pdf alpha curr_tm_sigma g u (100 * nat (iter - 1)))
                [0..<100] (curr_point, total_rate) of
           Inl e \<Rightarrow> Inl e
         | Inr (curr_point', total_rate') \<Rightarrow>
             (let rate_av' = total_rate' / 100 in
                (case bitand_float tol (rate_av' - 1/2) of Inl e \<Rightarrow> Inl e
                 | Inr m \<Rightarrow>
                     if \<bar>rate_av' - 1/2\<bar> > m \<and> m > 0
                     then tuner_while pdf alpha Niter tol g u
                            (curr_point', 0, iter + 1, total_rate', rate_av')
                     else
                       (case bitand_float tol (rate_av' - 1/2) of Inl e \<Rightarrow> Inl e
                        | Inr m' \<Rightarrow>
                            if \<bar>rate_av' - 1/2\<bar> > m' \<and> m' < 0
                            then tuner_while pdf alpha Niter tol g u
                                   (curr_point', 0, iter + 1, total_rate', rate_av')
                            else tuner_while pdf alpha Niter tol g u
                                   (curr_point', curr_tm_sigma, iter + 1, total_rate',
                                    rate_av')))))
      else Inr (curr_point, curr_tm_sigma, iter, total_rate, rate_av))"
  by pat_completeness auto
termination
  by (relation "measure (\<lambda>(pdf, alpha, Niter, tol, g, u, curr_point, curr_tm_sigma, iter,
        total_rate, rate_av). nat (Niter + 1 - iter))") auto

text \<open>
  \<^verbatim>\<open>find_optimal_tm_sigma(prob_density, alpha, dim, tm_sigma_init, Niter = 500, tol = 0.05)\<close>.
\<close>

definition find_optimal_tm_sigma ::
  "callable \<Rightarrow> pyval \<Rightarrow> int \<Rightarrow> real \<Rightarrow> int \<Rightarrow> real \<Rightarrow> (nat \<Rightarrow> nat \<Rightarrow> real) \<Rightarrow> (nat \<Rightarrow> real)
     \<Rightarrow> py_error + real" where
  "find_optimal_tm_sigma pdf alpha dim' tm_sigma_init Niter tol g u =
     (case np_zeros dim' of Inl e \<Rightarrow> Inl e
      | Inr curr_point \<Rightarrow>
          (case tuner_while pdf alpha Niter tol g u (curr_point, tm_sigma_init, 1, 0, 0) of
             Inl e \<Rightarrow> Inl e
           | Inr (curr_point', curr_tm_sigma, iter, total_rate, rate_av) \<Rightarrow> Inr curr_tm_sigma))"

section \<open>The Monte Carlo integration\<close>

text \<open>
  \<^verbatim>\<open>MC_integration\<close> (lines 197-223): the body is a bare \<^verbatim>\<open>return\<close>, the value is
  \<^verbatim>\<open>None\<close>.
\<close>

definition MC_integration ::
  "callable \<Rightarrow> callable \<Rightarrow> pyval \<Rightarrow> int \<Rightarrow> int \<Rightarrow> int \<Rightarrow> real \<Rightarrow> py_error + pyval" where
  "MC_integration E pdf alpha N_steps N_walkers N_skip L_start = Inr PyNone"

section \<open>Example inputs\<close>

text \<open>
  A density whose second parameter has a default value, as
  \<^verbatim>\<open>def rho(r, alpha=None): return 1.0 if r[0] <= 1 else 0.25\<close>, and constant
  draws: every normal number is \<open>1\<close>, every uniform number is \<open>1/2\<close>.
\<close>

definition step_density :: callable where
  "step_density args =
     (case args of
        [PyArr r] \<Rightarrow> Inr (if hd r \<le> 1 then 1 else 1/4)
      | [PyArr r, alpha] \<Rightarrow> Inr (if hd r \<le> 1 then 1 else 1/4)
      | _ \<Rightarrow> Inl TypeError)"

text \<open>
  A density whose value is its parameter, as
  \<^verbatim>\<open>def rho_a(r, alpha=1.0): return alpha\<close>.
\<close>

definition param_density :: callable where
  "param_density args =
     (case args of [r] \<Rightarrow> Inr 1 | [r, PyNum a] \<Rightarrow> Inr a | _ \<Rightarrow> Inl TypeError)"

text \<open>A density that vanishes everywhere, as \<^verbatim>\<open>def rho0(r, alpha=None): return 0\<close>.\<close>

definition null_density :: callable where
  "null_density args =
     (case args of [r] \<Rightarrow> Inr 0 | [r, alpha] \<Rightarrow> Inr 0 | _ \<Rightarrow> Inl TypeError)"

definition unit_gauss :: "nat \<Rightarrow> nat \<Rightarrow> real" where
  "unit_gauss i j = 1"

definition half_unif :: "nat \<Rightarrow> real" where
  "half_unif i = 1/2"

section \<open>One Metropolis decision\<close>


section \<open>The optimizer\<close>

text \<open>
  The class \<^verbatim>\<open>Optimizer\<close> (lines 230-269). \<^verbatim>\<open>update_alpha\<close> changes the object
  in place and returns \<^verbatim>\<open>None\<close>; the model returns the object after the call. In the
  branch \<^verbatim>\<open>"scan"\<close> the name \<^verbatim>\<open>step\<close> is read, which neither the method nor the
  module defines; in the branch \<^verbatim>\<open>"steepest_descent"\<close> the attribute
  \<^verbatim>\<open>self.args\<close> is read, which the class never sets. Both exceptions are raised
  before any attribute is assigned.
\<close>

record Optimizer =
  "method" :: pyval
  converged :: bool
  alpha :: pyval

definition Optimizer_init :: "(string \<rightharpoonup> pyval) \<Rightarrow> py_error + Optimizer" where
  "Optimizer_init opt_args =
     (case opt_args ''method'' of None \<Rightarrow> Inl KeyError
      | Some m \<Rightarrow>
          (case opt_args ''init_alpha'' of None \<Rightarrow> Inl KeyError
           | Some a \<Rightarrow> Inr \<lparr>method = m, converged = False, alpha = a\<rparr>))"

definition scan_alpha :: "pyval \<Rightarrow> pyval \<Rightarrow> pyval" where
  "scan_alpha alpha_old step = PyNum 0"

definition steepest_descent :: "pyval \<Rightarrow> pyval \<Rightarrow> pyval" where
  "steepest_descent alpha_old args = PyNum 0"

definition global_step :: "py_error + pyval" where
  "global_step = Inl NameError"

definition self_args :: "Optimizer \<Rightarrow> py_error + pyval" where
  "self_args self = Inl AttributeError"

definition update_alpha :: "Optimizer \<Rightarrow> pyval \<Rightarrow> py_error + Optimizer" where
  "update_alpha self args =
     (if method self = PyStr ''scan'' then
        (case global_step of Inl e \<Rightarrow> Inl e
         | Inr step \<Rightarrow>
             Inr (self\<lparr>alpha := scan_alpha (alpha self) step, converged := True\<rparr>))
      else if method self = PyStr ''steepest_descent'' then
        (case self_args self of Inl e \<Rightarrow> Inl e
         | Inr a \<Rightarrow>
             Inr (self\<lparr>alpha := steepest_descent (alpha self) a, converged := True\<rparr>))
      else Inr (self\<lparr>converged := True\<rparr>))"

section \<open>Loops and arrays\<close>

lemma for_loop_append:
  "for_loop body (xs @ ys) s =
     (case for_loop body xs s of Inl e \<Rightarrow> Inl e | Inr s' \<Rightarrow> for_loop body ys s')"
  by (induction xs arbitrary: s) (auto split: sum.splits)



lemma for_loop_raises:
  assumes "for_loop body xs s = Inr m" and "body i m = Inl e"
  shows "for_loop body (xs @ i # ys) s = Inl e"
  using assms by (simp add: for_loop_append)





section \<open>The loop of the walker\<close>

lemma walker_body_Inr:
  assumes "walker_body pdf \<alpha> tm_sigma g u i (steps, c) = Inr (steps', c')"
  shows "\<exists>next_point r.
           random_normal c tm_sigma (g i) = Inr next_point \<and>
           rate pdf \<alpha> next_point c = Inr r \<and>
           c' = (if u i \<le> r then next_point else c) \<and>
           setitem_row steps i c' = Inr steps'"
proof -
  from assms obtain next_point where n: "random_normal c tm_sigma (g i) = Inr next_point"
    by (cases "random_normal c tm_sigma (g i)") (simp_all add: walker_body_def)
  from assms n obtain r where r: "rate pdf \<alpha> next_point c = Inr r"
    by (cases "rate pdf \<alpha> next_point c") (simp_all add: walker_body_def)
  show ?thesis
  proof (cases "u i \<le> r")
    case True
    with assms n r show ?thesis
      by (auto simp: walker_body_def split: sum.splits)
  next
    case False
    with assms n r show ?thesis
      by (auto simp: walker_body_def split: sum.splits)
  qed
qed





lemma walker_state_Suc:
  assumes "walker_state pdf \<alpha> N_steps dim' init_point tm_sigma g u (Suc i) = Inr t"
  shows "\<exists>m. walker_state pdf \<alpha> N_steps dim' init_point tm_sigma g u i = Inr m \<and>
             walker_body pdf \<alpha> tm_sigma g u i m = Inr t"
  using assms
  by (auto simp: walker_state_def for_loop_append split: sum.splits)

lemma walker_state_raises:
  assumes st: "walker_state pdf \<alpha> N_steps dim' init_point tm_sigma g u k = Inr m"
    and body: "walker_body pdf \<alpha> tm_sigma g u k m = Inl e"
    and k: "k < n"
  shows "walker_state pdf \<alpha> N_steps dim' init_point tm_sigma g u n = Inl e"
proof -
  from k have "[0..<n] = [0..<k] @ [k..<n]"
    using upt_add_eq_append [of 0 k "n - k"] by simp
  with k have "[0..<n] = [0..<k] @ k # [Suc k..<n]"
    by (simp add: upt_conv_Cons)
  with st body show ?thesis
    by (auto simp: walker_state_def for_loop_append split: sum.splits)
qed




text \<open>
  A run of two steps from the point \<open>[0]\<close>: the first proposal \<open>[1]\<close> is accepted
  (rate \<open>1\<close>), the second proposal \<open>[2]\<close> is rejected (rate \<open>1/4\<close>).
\<close>

lemma walk_example_state0:
  "walker_state step_density (PyArr []) 2 1 [0] 1 unit_gauss half_unif 0 = Inr ([[0], [0]], [0])"
  by (simp add: walker_state_def np_zeros2_def setitem_row_def numeral_2_eq_2)

lemma walk_example_state1:
  "walker_state step_density (PyArr []) 2 1 [0] 1 unit_gauss half_unif 1 = Inr ([[1], [0]], [1])"
  by (simp add: walker_state_def np_zeros2_def setitem_row_def
      walker_body_def random_normal_def rate_def truediv_def step_density_def
      unit_gauss_def half_unif_def numeral_2_eq_2)

lemma walk_example_state2:
  "walker_state step_density (PyArr []) 2 1 [0] 1 unit_gauss half_unif 2 = Inr ([[1], [1]], [1])"
  by (simp add: walker_state_def np_zeros2_def setitem_row_def
      walker_body_def random_normal_def rate_def truediv_def step_density_def
      unit_gauss_def half_unif_def numeral_2_eq_2)

lemma walk_example:
  "random_walker step_density (PyArr []) 2 1 [0] 1 unit_gauss half_unif = Inr [[1], [1]]"
  using walk_example_state2 by (simp add: random_walker_def)

section \<open>The acceptance ratio\<close>

text \<open>
  C1. The claim: the acceptance ratio is the density at the proposed point divided by
  the density at the current point, both evaluated with the same \<open>alpha\<close>. Line 141
  calls the density at the current point with one argument, without \<open>alpha\<close>. For
  the density of the module itself, which has the documented signature
  \<^verbatim>\<open>prob_density(r, alpha)\<close>, the line raises \<^verbatim>\<open>TypeError\<close> whatever the points
  and the parameters are: no ratio is computed.
\<close>

theorem rate_omits_alpha:
  "rate prob_density \<alpha> next_point curr_point = Inl TypeError"
  by (simp add: rate_def prob_density_def)

text \<open>
  The same for every density that refuses a call with one argument: a walker of at
  least one step ends in its first iteration.
\<close>

lemma walker_two_parameter_density:
  assumes one: "\<forall>r. pdf [r] = Inl TypeError"
    and two: "\<forall>r a. \<exists>v. pdf [r, a] = Inr v"
    and N: "1 \<le> N_steps" and d: "0 \<le> dim'"
    and len: "length init_point = nat dim'"
    and sigma: "0 \<le> tm_sigma"
  shows "random_walker pdf \<alpha> N_steps dim' init_point tm_sigma g u = Inl TypeError"
proof -
  let ?steps0 = "(replicate (nat N_steps) (replicate (nat dim') (0::real)))[0 := init_point]"
  from N d len
  have st: "walker_state pdf \<alpha> N_steps dim' init_point tm_sigma g u 0 = Inr (?steps0, init_point)"
    by (simp add: walker_state_def np_zeros2_def setitem_row_def)
  obtain next_point where n: "random_normal init_point tm_sigma (g 0) = Inr next_point"
    using sigma by (simp add: random_normal_def)
  from two obtain v where "pdf [PyArr next_point, \<alpha>] = Inr v" by blast
  with one have "rate pdf \<alpha> next_point init_point = Inl TypeError"
    by (simp add: rate_def)
  with n have "walker_body pdf \<alpha> tm_sigma g u 0 (?steps0, init_point) = Inl TypeError"
    by (simp add: walker_body_def)
  with st have "walker_state pdf \<alpha> N_steps dim' init_point tm_sigma g u (nat N_steps) = Inl TypeError"
    using N by (intro walker_state_raises [where k = 0]) simp_all
  then show ?thesis by (simp add: random_walker_def)
qed

text \<open>
  Where the density accepts the call with one argument, the two evaluations do not use
  the same parameter: with \<open>alpha = 2\<close> the ratio of \<open>param_density\<close> is
  \<open>2 / 1\<close>, not \<open>2 / 2\<close>.
\<close>

lemma rate_default_alpha:
  "rate param_density (PyNum 2) next_point curr_point = Inr 2"
  by (simp add: rate_def param_density_def truediv_def)

section \<open>The acceptance test\<close>

text \<open>
  C2. In every iteration of the walker that completes, with \<open>curr_point\<close> the current
  point before it and \<open>curr_point'\<close> the current point after it: the proposal
  \<open>next_point\<close> is drawn around \<open>curr_point\<close>, the ratio \<open>r\<close> is computed, and the
  current point becomes \<open>next_point\<close> if the uniform number \<open>u i\<close> is at most
  \<open>r\<close> and stays \<open>curr_point\<close> otherwise. A ratio of at least \<open>1\<close> accepts for
  every uniform number below \<open>1\<close>. The point kept is the one written to row \<open>i\<close>.
\<close>

theorem walker_accepts_iff:
  assumes before:
      "walker_state pdf \<alpha> N_steps dim' init_point tm_sigma g u i = Inr (steps, curr_point)"
    and after:
      "walker_state pdf \<alpha> N_steps dim' init_point tm_sigma g u (Suc i) = Inr (steps', curr_point')"
  shows "\<exists>next_point r.
           random_normal curr_point tm_sigma (g i) = Inr next_point \<and>
           rate pdf \<alpha> next_point curr_point = Inr r \<and>
           curr_point' = (if u i \<le> r then next_point else curr_point) \<and>
           (1 \<le> r \<and> u i < 1 \<longrightarrow> curr_point' = next_point) \<and>
           setitem_row steps i curr_point' = Inr steps'"
proof -
  from walker_state_Suc [OF after] before
  have "walker_body pdf \<alpha> tm_sigma g u i (steps, curr_point) = Inr (steps', curr_point')"
    by auto
  from walker_body_Inr [OF this] show ?thesis by fastforce
qed

theorem walker_accepts_iff_witness:
  "walker_state step_density (PyArr []) 2 1 [0] 1 unit_gauss half_unif 0
     = Inr ([[0], [0]], [0]) \<and>
   walker_state step_density (PyArr []) 2 1 [0] 1 unit_gauss half_unif (Suc 0)
     = Inr ([[1], [0]], [1]) \<and>
   walker_state step_density (PyArr []) 2 1 [0] 1 unit_gauss half_unif (Suc 1)
     = Inr ([[1], [1]], [1]) \<and>
   (\<exists>next_point r.
      random_normal [0] 1 (unit_gauss 0) = Inr next_point \<and>
      rate step_density (PyArr []) next_point [0] = Inr r \<and>
      [1] = (if half_unif 0 \<le> r then next_point else [0]) \<and>
      (1 \<le> r \<and> half_unif 0 < 1 \<longrightarrow> [1] = next_point) \<and>
      setitem_row [[0], [0]] 0 [1] = Inr [[1], [0]]) \<and>
   (\<exists>next_point r.
      random_normal [1] 1 (unit_gauss 1) = Inr next_point \<and>
      rate step_density (PyArr []) next_point [1] = Inr r \<and>
      [1] = (if half_unif 1 \<le> r then next_point else [1]) \<and>
      (1 \<le> r \<and> half_unif 1 < 1 \<longrightarrow> [1] = next_point) \<and>
      setitem_row [[1], [0]] 1 [1] = Inr [[1], [1]])"
proof -
  have s0: "walker_state step_density (PyArr []) 2 1 [0] 1 unit_gauss half_unif 0
      = Inr ([[0], [0]], [0])"
    by (rule walk_example_state0)
  have s1: "walker_state step_density (PyArr []) 2 1 [0] 1 unit_gauss half_unif (Suc 0)
      = Inr ([[1], [0]], [1])"
    using walk_example_state1 by simp
  have s1': "walker_state step_density (PyArr []) 2 1 [0] 1 unit_gauss half_unif 1
      = Inr ([[1], [0]], [1])"
    by (rule walk_example_state1)
  have s2: "walker_state step_density (PyArr []) 2 1 [0] 1 unit_gauss half_unif (Suc 1)
      = Inr ([[1], [1]], [1])"
    using walk_example_state2 by (simp add: numeral_2_eq_2)
  from walker_accepts_iff [OF s0 s1] walker_accepts_iff [OF s1' s2] s0 s1 s2
  show ?thesis by blast
qed

section \<open>The trajectory\<close>



text \<open>
  C4. The claim: the trajectory has \<open>N_steps\<close> rows of \<open>dim\<close> coordinates and its first
  row is the initial point. The shape holds for every trajectory returned
  (\<open>random_walker_shape\<close>). The first row does not: line 137 writes the initial point
  to row \<open>0\<close>, and the loop starts at \<open>i = 0\<close> and writes row \<open>0\<close> again. From the
  point \<open>[0]\<close> with an accepted first proposal \<open>[1]\<close> the first row is \<open>[1]\<close>.
\<close>

theorem first_row_overwritten:
  "random_walker step_density (PyArr []) 2 1 [0] 1 unit_gauss half_unif = Inr [[1], [1]] \<and>
   hd [[1], [1]] \<noteq> [0::real]"
  using walk_example by simp

text \<open>
  C10. With \<open>N_steps = 0\<close> the array has no row and the write of line 137 raises
  \<^verbatim>\<open>IndexError\<close>, for every density and whatever the draws are.
\<close>

theorem random_walker_no_steps:
  assumes "0 \<le> dim'"
  shows "random_walker pdf \<alpha> 0 dim' init_point tm_sigma g u = Inl IndexError"
  using assms
  by (simp add: random_walker_def walker_state_def np_zeros2_def setitem_row_def)

theorem random_walker_no_steps_witness:
  "(0::int) \<le> 3 \<and>
   random_walker step_density (PyArr []) 0 3 [0, 0, 0] 1 unit_gauss half_unif = Inl IndexError"
proof -
  have d: "(0::int) \<le> 3" by simp
  from random_walker_no_steps [OF d] d show ?thesis by blast
qed

section \<open>A density that vanishes\<close>

text \<open>
  C7. The claim: a density that is zero at the current point makes the walker fail
  with a division-by-zero error. The density of the module is zero everywhere and has
  the documented signature; the walker fails on it, but with the \<^verbatim>\<open>TypeError\<close> of
  the call without \<open>alpha\<close> (line 141), whatever the draws are: the division is never
  reached.
\<close>

theorem zero_density_TypeError:
  "random_walker prob_density \<alpha> 1 1 [0] 1 g u = Inl TypeError"
  by (simp add: random_walker_def walker_state_def np_zeros2_def setitem_row_def
      walker_body_def random_normal_def rate_def prob_density_def)

text \<open>
  Where the density accepts the call with one argument and returns a Python zero at
  the current point of some iteration, the division raises and the walker ends with
  \<^verbatim>\<open>ZeroDivisionError\<close>: nothing catches it.
\<close>

lemma rate_zero_density:
  assumes "pdf [PyArr next_point, \<alpha>] = Inr a" and "pdf [PyArr curr_point] = Inr 0"
  shows "rate pdf \<alpha> next_point curr_point = Inl ZeroDivisionError"
  using assms by (simp add: rate_def truediv_def)

lemma walker_zero_density:
  assumes st: "walker_state pdf \<alpha> N_steps dim' init_point tm_sigma g u k = Inr (steps, curr_point)"
    and k: "k < nat N_steps"
    and draw: "random_normal curr_point tm_sigma (g k) = Inr next_point"
    and num: "pdf [PyArr next_point, \<alpha>] = Inr a"
    and den: "pdf [PyArr curr_point] = Inr 0"
  shows "random_walker pdf \<alpha> N_steps dim' init_point tm_sigma g u = Inl ZeroDivisionError"
proof -
  from draw rate_zero_density [OF num den]
  have "walker_body pdf \<alpha> tm_sigma g u k (steps, curr_point) = Inl ZeroDivisionError"
    by (simp add: walker_body_def)
  with st have "walker_state pdf \<alpha> N_steps dim' init_point tm_sigma g u (nat N_steps)
      = Inl ZeroDivisionError"
    using k by (rule walker_state_raises)
  then show ?thesis by (simp add: random_walker_def)
qed

lemma walker_null_density:
  "random_walker null_density (PyArr []) 1 1 [0] 1 unit_gauss half_unif = Inl ZeroDivisionError"
  by (simp add: random_walker_def walker_state_def np_zeros2_def setitem_row_def
      walker_body_def random_normal_def rate_def truediv_def null_density_def)

section \<open>The initial point\<close>

text \<open>
  C8. For a size \<open>dim \<ge> 0\<close> and a standard deviation \<open>system_size \<ge> 0\<close>,
  \<^verbatim>\<open>rand_init_point\<close> returns \<open>dim\<close> coordinates; coordinate \<open>j\<close> is the normal
  number of mean \<open>0\<close> and standard deviation \<open>system_size\<close> made from the \<open>j\<close>-th
  standard normal draw, each coordinate from a draw of its own.
\<close>

theorem rand_init_point_gaussian:
  assumes "0 \<le> dim'" and "0 \<le> system_size"
  shows "\<exists>p. rand_init_point system_size dim' z = Inr p \<and> length p = nat dim' \<and>
             (\<forall>j<nat dim'. p ! j = 0 + system_size * z j)"
  using assms by (simp add: rand_init_point_def random_normal_size_def)

theorem rand_init_point_gaussian_witness:
  "(0::int) \<le> 2 \<and> (0::real) \<le> 3 \<and>
   (\<exists>p. rand_init_point 3 2 (unit_gauss 0) = Inr p \<and> length p = nat 2 \<and>
        (\<forall>j<nat 2. p ! j = 0 + 3 * unit_gauss 0 j))"
proof -
  have d: "(0::int) \<le> 2" and s: "(0::real) \<le> 3" by simp_all
  from rand_init_point_gaussian [OF d s, of "unit_gauss 0"] d s show ?thesis by blast
qed

section \<open>The tuner\<close>

lemma tuner_while_raises:
  assumes "iter \<le> Niter"
  shows "\<exists>e. tuner_while pdf \<alpha> Niter tol g u
               (curr_point, curr_tm_sigma, iter, total_rate, rate_av) = Inl e"
  using assms by (simp add: bitand_float_def split: sum.splits prod.splits)

lemma tuner_while_batch_ok:
  assumes "iter \<le> Niter"
    and "for_loop (tuner_body pdf \<alpha> curr_tm_sigma g u (100 * nat (iter - 1)))
                [0..<100] (curr_point, total_rate) = Inr t"
  shows "tuner_while pdf \<alpha> Niter tol g u
           (curr_point, curr_tm_sigma, iter, total_rate, rate_av) = Inl TypeError"
  using assms by (simp add: bitand_float_def split: sum.splits prod.splits)

text \<open>
  With a budget of at least one batch the tuner never returns a width: the first
  batch raises, or line 184 does.
\<close>

lemma tuner_never_returns:
  assumes "1 \<le> Niter"
  shows "\<exists>e. find_optimal_tm_sigma pdf \<alpha> dim' tm_sigma_init Niter tol g u = Inl e"
proof (cases "np_zeros dim'")
  case (Inl e)
  then show ?thesis by (simp add: find_optimal_tm_sigma_def)
next
  case (Inr curr_point)
  from tuner_while_raises [OF assms] obtain e where
    "tuner_while pdf \<alpha> Niter tol g u (curr_point, tm_sigma_init, 1, 0, 0) = Inl e"
    by blast
  with Inr show ?thesis by (simp add: find_optimal_tm_sigma_def)
qed

text \<open>With no batch at all the initial width is returned.\<close>

lemma tuner_no_budget:
  assumes "Niter < 1" and "0 \<le> dim'"
  shows "find_optimal_tm_sigma pdf \<alpha> dim' tm_sigma_init Niter tol g u = Inr tm_sigma_init"
  using assms by (simp add: find_optimal_tm_sigma_def np_zeros_def)

lemma tuner_batch_ok:
  assumes "0 \<le> sigma"
  shows "\<exists>t. for_loop (tuner_body step_density \<alpha> sigma g u k0) xs s = Inr t"
proof (induction xs arbitrary: s)
  case Nil
  show ?case by simp
next
  case (Cons i xs)
  obtain c t where s: "s = (c, t)" by (cases s)
  from assms have "\<exists>s'. tuner_body step_density \<alpha> sigma g u k0 i s = Inr s'"
    by (simp add: s tuner_body_def random_normal_def rate_def step_density_def truediv_def)
  with Cons.IH show ?case by auto
qed

text \<open>
  C6. The claim: the tuner adjusts the width after each batch and returns a positive
  width, converged or not. With the default budget and tolerance and a density that
  lets the first batch of 100 steps complete, the tuner raises \<^verbatim>\<open>TypeError\<close> at
  line 184 (\<^verbatim>\<open>tol & (rate_av - 0.5)\<close> on two floats), whatever the draws are: it
  returns no width.
\<close>

theorem tuner_raises_TypeError:
  "find_optimal_tm_sigma step_density \<alpha> 1 1 500 (1/20) g u = Inl TypeError"
proof -
  obtain t where
    "for_loop (tuner_body step_density \<alpha> 1 g u (100 * nat (1 - 1))) [0..<100] ([0], 0) = Inr t"
    using tuner_batch_ok [of 1] by force
  then have "tuner_while step_density \<alpha> 500 (1/20) g u ([0], 1, 1, 0, 0) = Inl TypeError"
    by (intro tuner_while_batch_ok) simp_all
  then show ?thesis by (simp add: find_optimal_tm_sigma_def np_zeros_def)
qed

section \<open>The integration stub\<close>

text \<open>
  The body of \<^verbatim>\<open>MC_integration\<close> is a bare \<^verbatim>\<open>return\<close>: whatever the arguments
  are, the value is \<^verbatim>\<open>None\<close> and nothing is raised.
\<close>

lemma MC_integration_returns_None:
  "MC_integration E pdf \<alpha> N_steps N_walkers N_skip L_start = Inr PyNone"
  by (simp add: MC_integration_def)

text \<open>
  C5. The claim: \<^verbatim>\<open>MC_integration\<close> returns the pair of the estimate and its
  standard error, and fails when \<open>N_skip \<ge> N_steps\<close>. The docstring announces a
  result computed by Monte Carlo integration and documents \<open>N_skip\<close> as the steps to
  skip, but the code computes nothing. With \<open>N_steps = 10\<close> and \<open>N_skip = 10\<close> the
  call returns \<^verbatim>\<open>None\<close> instead of failing; with the default values
  \<open>N_steps = 5000\<close> and \<open>N_skip = 0\<close> it returns \<^verbatim>\<open>None\<close> instead of a pair.
\<close>

theorem MC_integration_no_result:
  "MC_integration E_local_f prob_density (PyArr [1/2]) 10 250 10 1 = Inr PyNone \<and>
   MC_integration E_local_f prob_density (PyArr [1/2]) 5000 250 0 1 = Inr PyNone"
  by (simp add: MC_integration_def)

section \<open>An unknown method\<close>

text \<open>
  C9. For an optimizer whose method is neither \<^verbatim>\<open>"scan"\<close> nor
  \<^verbatim>\<open>"steepest_descent"\<close>, \<^verbatim>\<open>update_alpha\<close> raises nothing, leaves \<open>alpha\<close> as it
  is and sets \<open>converged\<close>.
\<close>

theorem update_alpha_unknown_method:
  assumes "method self \<noteq> PyStr ''scan''" and "method self \<noteq> PyStr ''steepest_descent''"
  shows "update_alpha self args = Inr (self\<lparr>converged := True\<rparr>) \<and>
         alpha (self\<lparr>converged := True\<rparr>) = alpha self \<and>
         converged (self\<lparr>converged := True\<rparr>)"
  using assms by (simp add: update_alpha_def)

theorem update_alpha_unknown_method_witness:
  "method \<lparr>method = PyStr ''newton'', converged = False, alpha = PyArr [1]\<rparr> \<noteq> PyStr ''scan'' \<and>
   method \<lparr>method = PyStr ''newton'', converged = False, alpha = PyArr [1]\<rparr>
     \<noteq> PyStr ''steepest_descent'' \<and>
   update_alpha \<lparr>method = PyStr ''newton'', converged = False, alpha = PyArr [1]\<rparr> PyNone
     = Inr \<lparr>method = PyStr ''newton'', converged = True, alpha = PyArr [1]\<rparr>"
proof -
  let ?self = "\<lparr>method = PyStr ''newton'', converged = False, alpha = PyArr [1]\<rparr>"
  have a: "method ?self \<noteq> PyStr ''scan''" and b: "method ?self \<noteq> PyStr ''steepest_descent''"
    by simp_all
  from update_alpha_unknown_method [OF a b, of PyNone] a b show ?thesis by simp
qed

text \<open>The two known methods raise before anything is assigned.\<close>

lemma update_alpha_known_methods:
  "update_alpha \<lparr>method = PyStr ''scan'', converged = c, alpha = a\<rparr> args = Inl NameError"
  "update_alpha \<lparr>method = PyStr ''steepest_descent'', converged = c, alpha = a\<rparr> args
     = Inl AttributeError"
  by (simp_all add: update_alpha_def global_step_def self_args_def)

end
